theory Spec2Isabelle
  imports Complex_Main
begin

section \<open>The Dune client: base router and table endpoints\<close>

text \<open>
  A shallow embedding of \<^verbatim>\<open>dune_client/api/base.py\<close> and
  \<^verbatim>\<open>dune_client/api/table.py\<close>. Python values that the code handles are
  datatypes, the client object is a record, every \<^verbatim>\<open>raise\<close> is a value
  \<open>Inl e\<close> of a sum type, and the effects of a call (HTTP requests issued, debug
  log calls, file handles opened and closed) are written into an explicit \<open>world\<close>
  that each effectful function takes and returns.
\<close>

subsection \<open>Python values\<close>

text \<open>
  What \<^verbatim>\<open>response.json()\<close> can return: \<^verbatim>\<open>None\<close>, a bool, an int, a float,
  a str, a list or a dict with string keys. A dict is the list of its items; a key is
  looked up with \<open>map_of\<close>. Floats are taken as reals (the non-finite floats, which
  are truthy, have no counterpart here).
\<close>

datatype json =
    JNull
  | JBool bool
  | JInt int
  | JFloat real
  | JStr string
  | JArr "json list"
  | JObj "(string \<times> json) list"

text \<open>
  A response of the HTTP library, with its status code, its reason phrase and the
  outcome of \<^verbatim>\<open>response.json()\<close>: \<open>Inr v\<close> when the body decodes to \<open>v\<close>,
  \<open>Inl e\<close> when the call raises \<open>e\<close>. A body that is not JSON raises
  \<^verbatim>\<open>JSONDecodeError\<close>; the decoder can also raise other exceptions, a
  \<^verbatim>\<open>ValueError\<close> for an integer literal beyond the digit limit or a
  \<^verbatim>\<open>RecursionError\<close> for a body nested too deep. The response is a datatype with
  selectors rather than a record, since an \<^verbatim>\<open>HTTPError\<close> carries the response it
  was raised for, as the one of \<^verbatim>\<open>requests\<close> does.
  \<open>RequestException\<close> stands for the failures of the network (connection refused,
  timeout); \<open>DuneError\<close> carries the three arguments its constructor is called with.
\<close>

datatype http_error_kind = ClientError | ServerError

datatype type_error_cause = UnexpectedKeyword string | MissingArgument string | NotSubscriptable

datatype response =
    Response (status_code: int) (reason: string) (decoded: "py_exn + json")
and py_exn =
    JSONDecodeError
  | HTTPError http_error_kind response
  | ValueError string
  | RecursionError
  | KeyError string
  | TypeError type_error_cause
  | OSError string
  | RequestException string
  | DuneError json string py_exn

subsection \<open>The world\<close>

record request =
  http_method :: string
  url :: string
  headers :: "(string \<times> string) list"
  timeout :: int
  params :: json
  json_body :: json

datatype log_event =
    LogGet string
  | LogPost string json
  | LogPatch string json
  | LogResponse json

record world =
  sent :: "request list"
  log :: "log_event list"
  files :: "(string \<times> string) list"
  handles :: "(string \<times> bool) list"

text \<open>
  \<open>sent\<close> lists the HTTP requests issued so far, \<open>log\<close> the calls of
  \<^verbatim>\<open>logger.debug\<close>, \<open>files\<close> the paths that can be opened for reading with their
  contents (looked up with \<open>map_of\<close>), and \<open>handles\<close> every file object created so far with its path and whether
  it is still open; a file object is identified by its index in \<open>handles\<close>.
  The remote server is a function from the request to a response or to the exception
  that the HTTP library raises.
\<close>

type_synonym server = "request \<Rightarrow> py_exn + response"

type_synonym 'a io = "world \<Rightarrow> (py_exn + 'a) \<times> world"

definition logger_debug :: "log_event \<Rightarrow> world \<Rightarrow> world" where
  "logger_debug ev w = w\<lparr>log := log w @ [ev]\<rparr>"

definition requests_request :: "server \<Rightarrow> request \<Rightarrow> response io" where
  "requests_request srv req w = (srv req, w\<lparr>sent := sent w @ [req]\<rparr>)"

subsection \<open>BaseDuneClient\<close>

record client =
  token :: string
  client_version :: string
  performance :: string

definition BASE_URL :: string where
  "BASE_URL = ''https://api.dune.com''"

definition DEFAULT_TIMEOUT :: int where
  "DEFAULT_TIMEOUT = 10"

text \<open>
  The constructor stores its three arguments; \<^verbatim>\<open>client_version\<close> defaults to
  \<^verbatim>\<open>v1\<close> and \<^verbatim>\<open>performance\<close> to \<^verbatim>\<open>medium\<close>, the values that
  \<^verbatim>\<open>from_env\<close> gets. The logger it sets up is the \<open>log\<close> of the world.
\<close>

definition BaseDuneClient :: "string \<Rightarrow> string \<Rightarrow> string \<Rightarrow> client" where
  "BaseDuneClient api_key version perf =
     \<lparr>token = api_key, client_version = version, performance = perf\<rparr>"

definition from_env :: "(string \<rightharpoonup> string) \<Rightarrow> py_exn + client" where
  "from_env environ =
     (case environ ''DUNE_API_KEY'' of
        None \<Rightarrow> Inl (KeyError ''DUNE_API_KEY'')
      | Some k \<Rightarrow> Inr (BaseDuneClient k ''v1'' ''medium''))"

definition api_version :: "client \<Rightarrow> string" where
  "api_version c = ''/api/'' @ client_version c"

definition default_headers :: "client \<Rightarrow> (string \<times> string) list" where
  "default_headers c = [(''x-dune-api-key'', token c)]"

subsection \<open>BaseRouter\<close>

text \<open>
  \<^verbatim>\<open>Response.raise_for_status\<close> of the HTTP library raises \<^verbatim>\<open>HTTPError\<close> for a
  status from 400 to 599 (a client error below 500, a server error from 500 on) and
  returns \<^verbatim>\<open>None\<close> for every other status.
\<close>

definition raise_for_status :: "response \<Rightarrow> py_exn + unit" where
  "raise_for_status r =
     (if 400 \<le> status_code r \<and> status_code r < 500 then Inl (HTTPError ClientError r)
      else if 500 \<le> status_code r \<and> status_code r < 600 then Inl (HTTPError ServerError r)
      else Inr ())"

text \<open>
  \<^verbatim>\<open>except JSONDecodeError\<close> catches that exception only; any other exception of
  \<^verbatim>\<open>response.json()\<close> leaves \<^verbatim>\<open>_handle_response\<close> as it is.
\<close>

definition handle_response :: "client \<Rightarrow> response \<Rightarrow> json io" where
  "handle_response c r w =
     (case decoded r of
        Inr response_json \<Rightarrow> (Inr response_json, logger_debug (LogResponse response_json) w)
      | Inl JSONDecodeError \<Rightarrow>
          (case raise_for_status r of
             Inl e \<Rightarrow> (Inl e, w)
           | Inr _ \<Rightarrow> (Inl (ValueError ''Unreachable since previous line raises''), w))
      | Inl e \<Rightarrow> (Inl e, w))"

definition route_url :: "client \<Rightarrow> string \<Rightarrow> string" where
  "route_url c route = BASE_URL @ api_version c @ route"

datatype get_result = Raw response | Decoded json

definition get :: "client \<Rightarrow> string \<Rightarrow> json \<Rightarrow> bool \<Rightarrow> server \<Rightarrow> get_result io" where
  "get c route ps raw srv w =
     (let u = route_url c route;
          w1 = logger_debug (LogGet u) w
      in case requests_request srv
                \<lparr>http_method = ''GET'', url = u, headers = default_headers c,
                 timeout = DEFAULT_TIMEOUT, params = ps, json_body = JNull\<rparr> w1 of
           (Inl e, w2) \<Rightarrow> (Inl e, w2)
         | (Inr resp, w2) \<Rightarrow>
             if raw then (Inr (Raw resp), w2)
             else (case handle_response c resp w2 of
                     (Inl e, w3) \<Rightarrow> (Inl e, w3)
                   | (Inr j, w3) \<Rightarrow> (Inr (Decoded j), w3)))"

definition post :: "client \<Rightarrow> string \<Rightarrow> json \<Rightarrow> server \<Rightarrow> json io" where
  "post c route ps srv w =
     (let u = route_url c route;
          w1 = logger_debug (LogPost u ps) w
      in case requests_request srv
                \<lparr>http_method = ''POST'', url = u, headers = default_headers c,
                 timeout = DEFAULT_TIMEOUT, params = JNull, json_body = ps\<rparr> w1 of
           (Inl e, w2) \<Rightarrow> (Inl e, w2)
         | (Inr resp, w2) \<Rightarrow> handle_response c resp w2)"

definition patch :: "client \<Rightarrow> string \<Rightarrow> json \<Rightarrow> server \<Rightarrow> json io" where
  "patch c route ps srv w =
     (let u = route_url c route;
          w1 = logger_debug (LogPatch u ps) w
      in case requests_request srv
                \<lparr>http_method = ''PATCH'', url = u, headers = [(''x-dune-api-key'', token c)],
                 timeout = DEFAULT_TIMEOUT, params = JNull, json_body = ps\<rparr> w1 of
           (Inl e, w2) \<Rightarrow> (Inl e, w2)
         | (Inr resp, w2) \<Rightarrow> handle_response c resp w2)"

subsection \<open>Calling \<open>_post\<close> with keyword arguments\<close>

text \<open>
  Both call sites of \<^verbatim>\<open>_post\<close> in the table API pass keyword arguments only.
  Python binds them to the parameters \<^verbatim>\<open>route\<close> and \<^verbatim>\<open>params\<close> of
  \<^verbatim>\<open>_post(self, route, params=None)\<close> before the body runs: the first keyword
  that names no parameter raises \<^verbatim>\<open>TypeError\<close>, and so does a missing
  \<^verbatim>\<open>route\<close>. \<open>call_post\<close> takes the keywords of the call in their order, and
  the values of the two parameters that \<^verbatim>\<open>_post\<close> has.
\<close>

definition bind_post_keywords :: "string list \<Rightarrow> py_exn + unit" where
  "bind_post_keywords kws =
     (case filter (\<lambda>k. k \<notin> set [''route'', ''params'']) kws of
        k # _ \<Rightarrow> Inl (TypeError (UnexpectedKeyword k))
      | [] \<Rightarrow> if ''route'' \<in> set kws then Inr ()
              else Inl (TypeError (MissingArgument ''route'')))"

definition call_post ::
  "client \<Rightarrow> string list \<Rightarrow> string \<Rightarrow> json \<Rightarrow> server \<Rightarrow> json io" where
  "call_post c kws route ps srv w =
     (case bind_post_keywords kws of
        Inl e \<Rightarrow> (Inl e, w)
      | Inr _ \<Rightarrow> post c route ps srv w)"

subsection \<open>TableAPI\<close>

text \<open>
  \<^verbatim>\<open>response_json["success"]\<close>: a dict gives the value of the key or raises
  \<^verbatim>\<open>KeyError\<close>; a list, a str, a number, a bool and \<^verbatim>\<open>None\<close> raise
  \<^verbatim>\<open>TypeError\<close> for a string subscript.
\<close>

fun getitem :: "json \<Rightarrow> string \<Rightarrow> py_exn + json" where
  "getitem (JObj kvs) k = (case map_of kvs k of None \<Rightarrow> Inl (KeyError k) | Some v \<Rightarrow> Inr v)"
| "getitem _ k = Inl (TypeError NotSubscriptable)"

text \<open>Python's \<^verbatim>\<open>bool(v)\<close>.\<close>

fun truthy :: "json \<Rightarrow> bool" where
  "truthy JNull = False"
| "truthy (JBool b) = b"
| "truthy (JInt n) = (n \<noteq> 0)"
| "truthy (JFloat x) = (x \<noteq> 0)"
| "truthy (JStr s) = (s \<noteq> [])"
| "truthy (JArr xs) = (xs \<noteq> [])"
| "truthy (JObj kvs) = (kvs \<noteq> [])"

definition upload_csv ::
  "client \<Rightarrow> string \<Rightarrow> string \<Rightarrow> string \<Rightarrow> bool \<Rightarrow> server \<Rightarrow> bool io" where
  "upload_csv c table_name data description is_private srv w =
     (case call_post c [''route'', ''params''] ''/table/upload/csv''
             (JObj [(''table_name'', JStr table_name),
                    (''description'', JStr description),
                    (''data'', JStr data),
                    (''is_private'', JBool is_private)]) srv w of
        (Inl e, w1) \<Rightarrow> (Inl e, w1)
      | (Inr response_json, w1) \<Rightarrow>
          (case getitem response_json ''success'' of
             Inr v \<Rightarrow> (Inr (truthy v), w1)
           | Inl (KeyError k) \<Rightarrow>
               (Inl (DuneError response_json ''UploadCsvResponse'' (KeyError k)), w1)
           | Inl e \<Rightarrow> (Inl e, w1)))"

definition create_table ::
  "client \<Rightarrow> string \<Rightarrow> string \<Rightarrow> json \<Rightarrow> string \<Rightarrow> server \<Rightarrow> json io" where
  "create_table c namespace table_name schema description srv w =
     call_post c [''route'', ''params'']
       (''/table/'' @ namespace @ ''/'' @ table_name @ ''/create'')
       (JObj [(''schema'', schema), (''description'', JStr description)]) srv w"

text \<open>
  \<^verbatim>\<open>path.split(".")\<close>: the pieces of the path between the dots, at least one
  piece; \<^verbatim>\<open>[-1]\<close> is the last of them.
\<close>

fun split_on :: "char \<Rightarrow> string \<Rightarrow> string list" where
  "split_on sep [] = [[]]"
| "split_on sep (x # xs) =
     (if x = sep then [] # split_on sep xs
      else (case split_on sep xs of
              [] \<Rightarrow> [[x]]
            | p # ps \<Rightarrow> (x # p) # ps))"

definition content_type :: "string \<Rightarrow> string option" where
  "content_type file_extension =
     (if file_extension = ''csv'' then Some ''text/csv''
      else if file_extension \<in> set [''json'', ''jsonl''] then Some ''application/x-ndjson''
      else None)"

text \<open>
  \<^verbatim>\<open>open(path, "rb")\<close> raises \<^verbatim>\<open>ValueError\<close> for a path with a null
  character, \<^verbatim>\<open>OSError\<close> for any other path that cannot be opened, and creates a
  file object otherwise; leaving the \<^verbatim>\<open>with\<close> block closes it,
  whether the block returned or raised, and the result of the block is the result of
  the statement.
\<close>

definition open_rb :: "string \<Rightarrow> nat io" where
  "open_rb path w =
     (if CHR 0x00 \<in> set path then (Inl (ValueError ''embedded null byte''), w)
      else case map_of (files w) path of
             None \<Rightarrow> (Inl (OSError path), w)
           | Some _ \<Rightarrow> (Inr (length (handles w)), w\<lparr>handles := handles w @ [(path, True)]\<rparr>))"

definition close_handle :: "nat \<Rightarrow> world \<Rightarrow> world" where
  "close_handle h w =
     (if h < length (handles w)
      then w\<lparr>handles := (handles w)[h := (fst (handles w ! h), False)]\<rparr>
      else w)"

definition with_open :: "string \<Rightarrow> (nat \<Rightarrow> 'a io) \<Rightarrow> 'a io" where
  "with_open path body w =
     (case open_rb path w of
        (Inl e, w1) \<Rightarrow> (Inl e, w1)
      | (Inr data, w1) \<Rightarrow>
          (case body data w1 of (r, w2) \<Rightarrow> (r, close_handle data w2)))"

text \<open>
  The call in \<^verbatim>\<open>insert_table\<close> passes the keywords \<^verbatim>\<open>route\<close>,
  \<^verbatim>\<open>headers\<close> and \<^verbatim>\<open>data\<close>. The header dictionary and the file object
  are evaluated before the call (\<open>headers_arg\<close>, \<open>data_arg\<close>); \<^verbatim>\<open>_post\<close> has
  no parameter that could take them.
\<close>

definition insert_table ::
  "client \<Rightarrow> string \<Rightarrow> string \<Rightarrow> string \<Rightarrow> server \<Rightarrow> json io" where
  "insert_table c namespace table_name path srv w =
     (let file_extension = last (split_on CHR ''.'' path)
      in with_open path
           (\<lambda>data.
              let route = ''/table/'' @ namespace @ ''/'' @ table_name @ ''/insert'';
                  headers_arg = [(''Content-Type'', content_type file_extension)];
                  data_arg = data
              in call_post c [''route'', ''headers'', ''data''] route JNull srv)
           w)"

section \<open>Properties\<close>

subsection \<open>The base router\<close>

lemma handle_response_sent: "sent (snd (handle_response c r w)) = sent w"
  by (simp add: handle_response_def logger_debug_def split: sum.splits py_exn.splits)

lemma handle_response_handles: "handles (snd (handle_response c r w)) = handles w"
  by (simp add: handle_response_def logger_debug_def split: sum.splits py_exn.splits)

lemma post_sent:
  "sent (snd (post c route ps srv w)) =
     sent w @ [\<lparr>http_method = ''POST'', url = route_url c route, headers = default_headers c,
                timeout = DEFAULT_TIMEOUT, params = JNull, json_body = ps\<rparr>]"
  by (simp add: post_def Let_def requests_request_def logger_debug_def handle_response_sent
           split: sum.splits)

lemma patch_sent:
  "sent (snd (patch c route ps srv w)) =
     sent w @ [\<lparr>http_method = ''PATCH'', url = route_url c route,
                headers = [(''x-dune-api-key'', token c)],
                timeout = DEFAULT_TIMEOUT, params = JNull, json_body = ps\<rparr>]"
  by (simp add: patch_def Let_def requests_request_def logger_debug_def handle_response_sent
           split: sum.splits)

lemma get_sent:
  "sent (snd (get c route ps raw srv w)) =
     sent w @ [\<lparr>http_method = ''GET'', url = route_url c route, headers = default_headers c,
                timeout = DEFAULT_TIMEOUT, params = ps, json_body = JNull\<rparr>]"
proof (cases "srv \<lparr>http_method = ''GET'', url = route_url c route, headers = default_headers c,
                timeout = DEFAULT_TIMEOUT, params = ps, json_body = JNull\<rparr>")
  case (Inl e)
  then show ?thesis
    by (simp add: get_def Let_def requests_request_def logger_debug_def)
next
  case (Inr resp)
  show ?thesis
  proof (cases raw)
    case True
    with Inr show ?thesis
      by (simp add: get_def Let_def requests_request_def logger_debug_def)
  next
    case False
    obtain x w3 where h: "handle_response c resp
        (w\<lparr>log := log w @ [LogGet (route_url c route)],
           sent := sent w @ [\<lparr>http_method = ''GET'', url = route_url c route, headers = default_headers c,
                timeout = DEFAULT_TIMEOUT, params = ps, json_body = JNull\<rparr>]\<rparr>) = (x, w3)"
      by (cases "handle_response c resp
        (w\<lparr>log := log w @ [LogGet (route_url c route)],
           sent := sent w @ [\<lparr>http_method = ''GET'', url = route_url c route, headers = default_headers c,
                timeout = DEFAULT_TIMEOUT, params = ps, json_body = JNull\<rparr>]\<rparr>)") auto
    from h have "sent w3 = sent w @ [\<lparr>http_method = ''GET'', url = route_url c route, headers = default_headers c,
                timeout = DEFAULT_TIMEOUT, params = ps, json_body = JNull\<rparr>]"
      using handle_response_sent [of c resp "w\<lparr>log := log w @ [LogGet (route_url c route)],
           sent := sent w @ [\<lparr>http_method = ''GET'', url = route_url c route, headers = default_headers c,
                timeout = DEFAULT_TIMEOUT, params = ps, json_body = JNull\<rparr>]\<rparr>"] by simp
    with Inr False h show ?thesis
      by (simp add: get_def Let_def requests_request_def logger_debug_def split: sum.splits)
  qed
qed

text \<open>
  C6. Each of the verb methods \<^verbatim>\<open>_get\<close>, \<^verbatim>\<open>_post\<close> and \<^verbatim>\<open>_patch\<close> issues
  exactly one HTTP request, whatever the server answers; that request has the header
  \<^verbatim>\<open>x-dune-api-key\<close> with the token of the client and the timeout 10.
\<close>
theorem verbs_carry_auth_header_and_timeout:
  "(\<exists>req. sent (snd (get c route ps raw srv w)) = sent w @ [req]
        \<and> map_of (headers req) ''x-dune-api-key'' = Some (token c) \<and> timeout req = 10)
   \<and> (\<exists>req. sent (snd (post c route ps srv w)) = sent w @ [req]
        \<and> map_of (headers req) ''x-dune-api-key'' = Some (token c) \<and> timeout req = 10)
   \<and> (\<exists>req. sent (snd (patch c route ps srv w)) = sent w @ [req]
        \<and> map_of (headers req) ''x-dune-api-key'' = Some (token c) \<and> timeout req = 10)"
  by (simp add: get_sent post_sent patch_sent default_headers_def DEFAULT_TIMEOUT_def)

text \<open>
  C7. \<^verbatim>\<open>_route_url\<close> is the concatenation of the base origin, \<^verbatim>\<open>/api/\<close> with
  the version of the client, and the route; it does not depend on the other fields of
  the client; for the version \<^verbatim>\<open>v1\<close> and the route \<^verbatim>\<open>/table/upload/csv\<close> it is
  \<^verbatim>\<open>https://api.dune.com/api/v1/table/upload/csv\<close>.
\<close>
theorem route_url_concat:
  "route_url c route = BASE_URL @ ''/api/'' @ client_version c @ route
   \<and> route_url (c\<lparr>token := t, performance := p\<rparr>) route = route_url c route
   \<and> route_url (BaseDuneClient k ''v1'' p) ''/table/upload/csv''
       = ''https://api.dune.com/api/v1/table/upload/csv''"
  by (simp add: route_url_def api_version_def BASE_URL_def BaseDuneClient_def)

text \<open>
  C8. \<^verbatim>\<open>default_headers\<close> of a client built from an API key is the dictionary with
  the single key \<^verbatim>\<open>x-dune-api-key\<close>, mapped to that key; for every client the auth
  key occurs exactly once, with the token as its value. The method is a function of the
  client alone: it takes no world and returns none.
\<close>
theorem default_headers_auth_once:
  "default_headers (BaseDuneClient k v p) = [(''x-dune-api-key'', k)]
   \<and> map_of (default_headers c) ''x-dune-api-key'' = Some (token c)
   \<and> length (filter (\<lambda>kv. fst kv = ''x-dune-api-key'') (default_headers c)) = 1
   \<and> map fst (default_headers c) = [''x-dune-api-key'']"
  by (simp add: default_headers_def BaseDuneClient_def)

text \<open>
  C4. A response whose body decodes is answered with the decoded value, whatever its
  status code.
\<close>
theorem handle_response_returns_decoded:
  "decoded r = Inr v \<Longrightarrow> fst (handle_response c r w) = Inr v"
  by (simp add: handle_response_def)

theorem handle_response_returns_decoded_witness:
  "decoded (Response 404 ''Not Found'' (Inr (JObj [(''error'', JStr ''no such table'')])))
     = Inr (JObj [(''error'', JStr ''no such table'')])
   \<and> fst (handle_response (BaseDuneClient ''key'' ''v1'' ''medium'')
        (Response 404 ''Not Found'' (Inr (JObj [(''error'', JStr ''no such table'')])))
        \<lparr>sent = [], log = [], files = [], handles = []\<rparr>)
     = Inr (JObj [(''error'', JStr ''no such table'')])"
  using handle_response_returns_decoded
    [of "(Response 404 ''Not Found'' (Inr (JObj [(''error'', JStr ''no such table'')])))"
        "JObj [(''error'', JStr ''no such table'')]"
        "BaseDuneClient ''key'' ''v1'' ''medium''"
        "\<lparr>sent = [], log = [], files = [], handles = []\<rparr>"]
  by simp

lemma handle_response_http_error:
  "400 \<le> status_code r \<Longrightarrow> status_code r < 600 \<Longrightarrow> decoded r = Inl JSONDecodeError \<Longrightarrow>
     handle_response c r w =
       (Inl (HTTPError (if status_code r < 500 then ClientError else ServerError) r), w)"
  by (simp add: handle_response_def raise_for_status_def)

lemma handle_response_outside_error_range:
  "\<not> (400 \<le> status_code r \<and> status_code r < 600) \<Longrightarrow> decoded r = Inl JSONDecodeError \<Longrightarrow>
     handle_response c r w = (Inl (ValueError ''Unreachable since previous line raises''), w)"
  by (auto simp add: handle_response_def raise_for_status_def)

lemma handle_response_other_exception:
  "decoded r = Inl e \<Longrightarrow> e \<noteq> JSONDecodeError \<Longrightarrow> handle_response c r w = (Inl e, w)"
  by (cases e) (simp_all add: handle_response_def)

text \<open>
  C3. A response with status 304, which is not a 2xx status, and a body that is not
  JSON: \<^verbatim>\<open>raise_for_status\<close> returns, and \<^verbatim>\<open>_handle_response\<close> reaches the
  line that its own message calls unreachable, so the call ends in that
  \<^verbatim>\<open>ValueError\<close> and not in an HTTP error. A response with status 500 whose
  decoding raises \<^verbatim>\<open>RecursionError\<close> is not caught at all and ends in that
  exception, not in an HTTP error either.
\<close>
theorem handle_response_reaches_unreachable:
  "raise_for_status (Response 304 ''Not Modified'' (Inl JSONDecodeError)) = Inr ()
   \<and> fst (handle_response (BaseDuneClient ''key'' ''v1'' ''medium'')
        (Response 304 ''Not Modified'' (Inl JSONDecodeError))
        \<lparr>sent = [], log = [], files = [], handles = []\<rparr>)
     = Inl (ValueError ''Unreachable since previous line raises'')
   \<and> fst (handle_response (BaseDuneClient ''key'' ''v1'' ''medium'')
        (Response 500 ''Internal Server Error'' (Inl RecursionError))
        \<lparr>sent = [], log = [], files = [], handles = []\<rparr>)
     = Inl RecursionError"
  by (simp add: handle_response_def raise_for_status_def)

text \<open>
  C9. For a response with a 2xx status whose body does not decode,
  \<^verbatim>\<open>raise_for_status\<close> does not raise and \<^verbatim>\<open>_handle_response\<close> raises the
  \<^verbatim>\<open>ValueError\<close> of its last line: it returns no value, and the error is neither
  an HTTP error nor a decode error.
\<close>
theorem handle_response_ok_undecodable:
  "200 \<le> status_code r \<Longrightarrow> status_code r < 300 \<Longrightarrow> decoded r = Inl JSONDecodeError \<Longrightarrow>
     raise_for_status r = Inr ()
     \<and> handle_response c r w = (Inl (ValueError ''Unreachable since previous line raises''), w)"
  by (simp add: handle_response_def raise_for_status_def)

theorem handle_response_ok_undecodable_witness:
  "handle_response (BaseDuneClient ''key'' ''v1'' ''medium'')
        (Response 200 ''OK'' (Inl JSONDecodeError))
        \<lparr>sent = [], log = [], files = [], handles = []\<rparr>
     = (Inl (ValueError ''Unreachable since previous line raises''),
        \<lparr>sent = [], log = [], files = [], handles = []\<rparr>)"
  using handle_response_ok_undecodable
    [of "(Response 200 ''OK'' (Inl JSONDecodeError))"
        "BaseDuneClient ''key'' ''v1'' ''medium''"
        "\<lparr>sent = [], log = [], files = [], handles = []\<rparr>"]
  by simp

subsection \<open>The table endpoints\<close>

lemma split_on_nonempty: "split_on sep s \<noteq> []"
  by (induction s) (auto split: list.splits)

lemma content_type_cases:
  "content_type ''csv'' = Some ''text/csv''"
  "content_type ''json'' = Some ''application/x-ndjson''"
  "content_type ''jsonl'' = Some ''application/x-ndjson''"
  "e \<noteq> ''csv'' \<Longrightarrow> e \<noteq> ''json'' \<Longrightarrow> e \<noteq> ''jsonl'' \<Longrightarrow> content_type e = None"
  by (simp_all add: content_type_def)

lemma file_extension_examples:
  "last (split_on CHR ''.'' ''rows.csv'') = ''csv''"
  "last (split_on CHR ''.'' ''dir.v2/rows.jsonl'') = ''jsonl''"
  "last (split_on CHR ''.'' ''csv'') = ''csv''"
  by simp_all

lemma bind_post_keywords_upload: "bind_post_keywords [''route'', ''params''] = Inr ()"
  by (simp add: bind_post_keywords_def)

lemma bind_post_keywords_insert:
  "bind_post_keywords [''route'', ''headers'', ''data''] = Inl (TypeError (UnexpectedKeyword ''headers''))"
  by (simp add: bind_post_keywords_def)

lemma post_answer:
  "srv \<lparr>http_method = ''POST'', url = route_url c route, headers = default_headers c,
        timeout = DEFAULT_TIMEOUT, params = JNull, json_body = ps\<rparr> = Inr r \<Longrightarrow>
   decoded r = Inr v \<Longrightarrow> fst (post c route ps srv w) = Inr v"
  by (simp add: post_def Let_def requests_request_def handle_response_def)

lemma with_open_null_byte:
  "CHR 0x00 \<in> set path \<Longrightarrow>
     with_open path body w = (Inl (ValueError ''embedded null byte''), w)"
  by (simp add: with_open_def open_rb_def)

lemma with_open_missing:
  "CHR 0x00 \<notin> set path \<Longrightarrow> map_of (files w) path = None \<Longrightarrow>
     with_open path body w = (Inl (OSError path), w)"
  by (simp add: with_open_def open_rb_def)

lemma with_open_closes:
  assumes "CHR 0x00 \<notin> set path"
    and "map_of (files w) path = Some bytes"
    and "body (length (handles w)) (w\<lparr>handles := handles w @ [(path, True)]\<rparr>) = (r, w2)"
    and "handles w2 = handles w @ [(path, True)]"
  shows "with_open path body w = (r, w2\<lparr>handles := handles w @ [(path, False)]\<rparr>)"
  using assms by (simp add: with_open_def open_rb_def close_handle_def)

lemma insert_table_outcome:
  "insert_table c namespace table_name path srv w =
     (if CHR 0x00 \<in> set path then (Inl (ValueError ''embedded null byte''), w)
      else case map_of (files w) path of
             None \<Rightarrow> (Inl (OSError path), w)
           | Some _ \<Rightarrow> (Inl (TypeError (UnexpectedKeyword ''headers'')),
                        w\<lparr>handles := handles w @ [(path, False)]\<rparr>))"
proof (cases "CHR 0x00 \<in> set path")
  case True
  then show ?thesis
    by (simp add: insert_table_def with_open_null_byte)
next
  case nonull: False
  show ?thesis
  proof (cases "map_of (files w) path")
    case None
    with nonull show ?thesis
      by (simp add: insert_table_def with_open_missing)
  next
    case (Some bytes)
    have "with_open path
            (\<lambda>data. call_post c [''route'', ''headers'', ''data'']
               (''/table/'' @ namespace @ ''/'' @ table_name @ ''/insert'') JNull srv) w
          = (Inl (TypeError (UnexpectedKeyword ''headers'')),
             w\<lparr>handles := handles w @ [(path, True)]\<rparr>\<lparr>handles := handles w @ [(path, False)]\<rparr>)"
      by (rule with_open_closes [OF nonull Some])
         (simp_all add: call_post_def bind_post_keywords_insert)
    with nonull Some show ?thesis
      by (simp add: insert_table_def Let_def)
  qed
qed

text \<open>
  C5. After \<^verbatim>\<open>insert_table\<close>, whatever the path, the server and the world, the
  handle table is the one from before the call, followed by the file object opened for
  the path, closed (and by nothing when the path could not be opened, where no file
  object exists). The \<^verbatim>\<open>with\<close> statement itself closes the file object for every
  outcome \<open>r\<close> of its block, a returned value as well as a raised exception, when the
  block leaves the handle table alone.
\<close>
theorem insert_table_closes_file:
  "handles (snd (insert_table c namespace table_name path srv w)) =
     handles w @ (if CHR 0x00 \<in> set path then []
                  else case map_of (files w) path of None \<Rightarrow> [] | Some _ \<Rightarrow> [(path, False)])
   \<and> (CHR 0x00 \<notin> set path \<longrightarrow> map_of (files w) path \<noteq> None \<longrightarrow>
        body (length (handles w)) (w\<lparr>handles := handles w @ [(path, True)]\<rparr>) = (r, w2) \<longrightarrow>
        handles w2 = handles w @ [(path, True)] \<longrightarrow>
        handles (snd (with_open path body w)) = handles w @ [(path, False)])"
proof -
  have "handles (snd (insert_table c namespace table_name path srv w)) =
     handles w @ (if CHR 0x00 \<in> set path then []
                  else case map_of (files w) path of None \<Rightarrow> [] | Some _ \<Rightarrow> [(path, False)])"
    by (simp add: insert_table_outcome split: option.splits)
  moreover have "handles (snd (with_open path body w)) = handles w @ [(path, False)]"
    if "CHR 0x00 \<notin> set path" and "map_of (files w) path = Some bytes"
      and "body (length (handles w)) (w\<lparr>handles := handles w @ [(path, True)]\<rparr>) = (r, w2)"
      and "handles w2 = handles w @ [(path, True)]" for bytes
    using that with_open_closes [of path w bytes body r w2] by simp
  ultimately show ?thesis
    by auto
qed

theorem insert_table_closes_file_witness:
  "handles (snd (insert_table (BaseDuneClient ''key'' ''v1'' ''medium'') ''ns'' ''t'' ''rows.csv''
       (\<lambda>req. Inr (Response 200 ''OK'' (Inr (JObj []))))
       \<lparr>sent = [], log = [], files = [(''rows.csv'', ''a,b'')], handles = []\<rparr>))
     = [(''rows.csv'', False)]
   \<and> handles (snd (with_open ''rows.csv'' (\<lambda>data w. (Inr (JObj []), w))
       \<lparr>sent = [], log = [], files = [(''rows.csv'', ''a,b'')], handles = []\<rparr>))
     = [(''rows.csv'', False)]"
  using insert_table_closes_file
    [of "BaseDuneClient ''key'' ''v1'' ''medium''" "''ns''" "''t''" "''rows.csv''"
        "\<lambda>req. Inr (Response 200 ''OK'' (Inr (JObj [])))"
        "\<lparr>sent = [], log = [], files = [(''rows.csv'', ''a,b'')], handles = []\<rparr>"
        "\<lambda>data w. (Inr (JObj []), w)" "Inr (JObj [])"
        "\<lparr>sent = [], log = [], files = [(''rows.csv'', ''a,b'')], handles = [(''rows.csv'', True)]\<rparr>"]
  by simp

text \<open>
  C1. What \<^verbatim>\<open>insert_table\<close> does: for a path that cannot be opened it raises the
  exception of \<^verbatim>\<open>open\<close> (\<^verbatim>\<open>ValueError\<close> for a null character in the path,
  \<^verbatim>\<open>OSError\<close> otherwise); for every other path the call of \<^verbatim>\<open>_post\<close> raises
  \<^verbatim>\<open>TypeError\<close> for the keyword \<^verbatim>\<open>headers\<close>, the file object is closed, and no
  HTTP request has been issued. So no request carries the content type computed from
  the extension; the last two conjuncts are the call for the existing file
  \<^verbatim>\<open>rows.csv\<close>.
\<close>
theorem insert_table_raises_before_post:
  "insert_table c namespace table_name path srv w =
     (if CHR 0x00 \<in> set path then (Inl (ValueError ''embedded null byte''), w)
      else case map_of (files w) path of
             None \<Rightarrow> (Inl (OSError path), w)
           | Some _ \<Rightarrow> (Inl (TypeError (UnexpectedKeyword ''headers'')),
                        w\<lparr>handles := handles w @ [(path, False)]\<rparr>))
   \<and> sent (snd (insert_table c namespace table_name path srv w)) = sent w
   \<and> fst (insert_table (BaseDuneClient ''key'' ''v1'' ''medium'') ''ns'' ''t'' ''rows.csv'' srv
            \<lparr>sent = [], log = [], files = [(''rows.csv'', ''a,b'')], handles = []\<rparr>)
       = Inl (TypeError (UnexpectedKeyword ''headers''))
   \<and> sent (snd (insert_table (BaseDuneClient ''key'' ''v1'' ''medium'') ''ns'' ''t'' ''rows.csv'' srv
            \<lparr>sent = [], log = [], files = [(''rows.csv'', ''a,b'')], handles = []\<rparr>)) = []"
  by (simp add: insert_table_outcome split: option.splits)

text \<open>
  C2. When the server answers \<^verbatim>\<open>upload_csv\<close> with a response that decodes to a
  mapping: if the mapping has the key \<^verbatim>\<open>success\<close>, the call returns the boolean of
  that field (the field itself when it is a bool, its truth value otherwise); if it
  has not, the call raises \<^verbatim>\<open>DuneError\<close> with the response payload, the name
  \<^verbatim>\<open>UploadCsvResponse\<close> and the \<^verbatim>\<open>KeyError\<close>.
\<close>
theorem upload_csv_success_field:
  "decoded r = Inr (JObj kvs) \<Longrightarrow>
     fst (upload_csv c table_name data description is_private (\<lambda>req. Inr r) w) =
       (case map_of kvs ''success'' of
          Some v \<Rightarrow> Inr (case v of JBool b \<Rightarrow> b | _ \<Rightarrow> truthy v)
        | None \<Rightarrow> Inl (DuneError (JObj kvs) ''UploadCsvResponse'' (KeyError ''success'')))"
proof -
  assume d: "decoded r = Inr (JObj kvs)"
  have p: "fst (post c route ps (\<lambda>req. Inr r) w) = Inr (JObj kvs)" for route ps
    by (rule post_answer [OF _ d]) simp
  obtain x w1 where e: "post c ''/table/upload/csv''
             (JObj [(''table_name'', JStr table_name),
                    (''description'', JStr description),
                    (''data'', JStr data),
                    (''is_private'', JBool is_private)]) (\<lambda>req. Inr r) w = (x, w1)"
    by (meson surj_pair)
  with p have x: "x = Inr (JObj kvs)"
    by (metis fst_conv)
  show ?thesis
    by (simp add: upload_csv_def call_post_def bind_post_keywords_upload e x
          split: option.splits json.splits)
qed

theorem upload_csv_success_field_witness:
  "fst (upload_csv (BaseDuneClient ''key'' ''v1'' ''medium'') ''t'' ''a,b'' [] False
         (\<lambda>req. Inr (Response 200 ''OK'' (Inr (JObj [(''success'', JBool True)]))))
         \<lparr>sent = [], log = [], files = [], handles = []\<rparr>) = Inr True
   \<and> fst (upload_csv (BaseDuneClient ''key'' ''v1'' ''medium'') ''t'' ''a,b'' [] False
         (\<lambda>req. Inr (Response 200 ''OK'' (Inr (JObj [(''success'', JBool False)]))))
         \<lparr>sent = [], log = [], files = [], handles = []\<rparr>) = Inr False
   \<and> fst (upload_csv (BaseDuneClient ''key'' ''v1'' ''medium'') ''t'' ''a,b'' [] False
         (\<lambda>req. Inr (Response 200 ''OK'' (Inr (JObj [(''error'', JStr ''bad'')]))))
         \<lparr>sent = [], log = [], files = [], handles = []\<rparr>)
       = Inl (DuneError (JObj [(''error'', JStr ''bad'')]) ''UploadCsvResponse'' (KeyError ''success''))"
  using
    upload_csv_success_field
      [of "(Response 200 ''OK'' (Inr (JObj [(''success'', JBool True)])))"
          "[(''success'', JBool True)]" "BaseDuneClient ''key'' ''v1'' ''medium''" "''t''" "''a,b''" "[]" False
          "\<lparr>sent = [], log = [], files = [], handles = []\<rparr>"]
    upload_csv_success_field
      [of "(Response 200 ''OK'' (Inr (JObj [(''success'', JBool False)])))"
          "[(''success'', JBool False)]" "BaseDuneClient ''key'' ''v1'' ''medium''" "''t''" "''a,b''" "[]" False
          "\<lparr>sent = [], log = [], files = [], handles = []\<rparr>"]
    upload_csv_success_field
      [of "(Response 200 ''OK'' (Inr (JObj [(''error'', JStr ''bad'')])))"
          "[(''error'', JStr ''bad'')]" "BaseDuneClient ''key'' ''v1'' ''medium''" "''t''" "''a,b''" "[]" False
          "\<lparr>sent = [], log = [], files = [], handles = []\<rparr>"]
  by simp

text \<open>
  C10. When the server answers the request of \<^verbatim>\<open>upload_csv\<close> with a response
  that decodes to \<open>v\<close>: if \<open>v\<close> is a mapping without the key \<^verbatim>\<open>success\<close> the call
  raises \<^verbatim>\<open>DuneError\<close>; if \<open>v\<close> is a mapping with the key, the call returns the
  truth value of the field, which is the field for a bool, and for the other values
  whether a number is not zero and whether a string, a list or a mapping is not empty
  (\<^verbatim>\<open>None\<close> is false); if \<open>v\<close> is no mapping, the \<^verbatim>\<open>TypeError\<close> of the subscript
  reaches the caller, not wrapped into a \<^verbatim>\<open>DuneError\<close>.
\<close>
theorem upload_csv_wraps_key_error_only:
  "srv \<lparr>http_method = ''POST'', url = route_url c ''/table/upload/csv'',
        headers = default_headers c, timeout = DEFAULT_TIMEOUT, params = JNull,
        json_body = JObj [(''table_name'', JStr table_name),
                          (''description'', JStr description),
                          (''data'', JStr data),
                          (''is_private'', JBool is_private)]\<rparr> = Inr r \<Longrightarrow>
   decoded r = Inr v \<Longrightarrow>
     fst (upload_csv c table_name data description is_private srv w) =
       (case v of
          JObj kvs \<Rightarrow>
            (case map_of kvs ''success'' of
               None \<Rightarrow> Inl (DuneError v ''UploadCsvResponse'' (KeyError ''success''))
             | Some x \<Rightarrow>
                 Inr (case x of
                        JNull \<Rightarrow> False
                      | JBool b \<Rightarrow> b
                      | JInt n \<Rightarrow> n \<noteq> 0
                      | JFloat f \<Rightarrow> f \<noteq> 0
                      | JStr s \<Rightarrow> s \<noteq> []
                      | JArr xs \<Rightarrow> xs \<noteq> []
                      | JObj m \<Rightarrow> m \<noteq> []))
        | _ \<Rightarrow> Inl (TypeError NotSubscriptable))"
proof -
  assume a: "srv \<lparr>http_method = ''POST'', url = route_url c ''/table/upload/csv'',
        headers = default_headers c, timeout = DEFAULT_TIMEOUT, params = JNull,
        json_body = JObj [(''table_name'', JStr table_name),
                          (''description'', JStr description),
                          (''data'', JStr data),
                          (''is_private'', JBool is_private)]\<rparr> = Inr r"
    and d: "decoded r = Inr v"
  obtain x w1 where e: "post c ''/table/upload/csv''
             (JObj [(''table_name'', JStr table_name),
                    (''description'', JStr description),
                    (''data'', JStr data),
                    (''is_private'', JBool is_private)]) srv w = (x, w1)"
    by (meson surj_pair)
  have "fst (post c ''/table/upload/csv''
             (JObj [(''table_name'', JStr table_name),
                    (''description'', JStr description),
                    (''data'', JStr data),
                    (''is_private'', JBool is_private)]) srv w) = Inr v"
    using a d by (rule post_answer)
  with e have x: "x = Inr v"
    by simp
  have u: "fst (upload_csv c table_name data description is_private srv w) =
       (case getitem v ''success'' of
          Inr y \<Rightarrow> Inr (truthy y)
        | Inl (KeyError k) \<Rightarrow> Inl (DuneError v ''UploadCsvResponse'' (KeyError k))
        | Inl e \<Rightarrow> Inl e)"
    by (simp add: upload_csv_def call_post_def bind_post_keywords_upload e x
          split: sum.splits py_exn.splits)
  show ?thesis
  proof (cases v)
    case (JObj kvs)
    show ?thesis
    proof (cases "map_of kvs ''success''")
      case None
      with JObj u show ?thesis by simp
    next
      case (Some y)
      with JObj u show ?thesis by (cases y) simp_all
    qed
  qed (simp_all add: u)
qed

theorem upload_csv_wraps_key_error_only_witness:
  "fst (upload_csv (BaseDuneClient ''key'' ''v1'' ''medium'') ''t'' ''a,b'' [] False
         (\<lambda>req. Inr (Response 200 ''OK'' (Inr (JArr [JBool True]))))
         \<lparr>sent = [], log = [], files = [], handles = []\<rparr>) = Inl (TypeError NotSubscriptable)
   \<and> fst (upload_csv (BaseDuneClient ''key'' ''v1'' ''medium'') ''t'' ''a,b'' [] False
         (\<lambda>req. Inr (Response 200 ''OK'' (Inr (JStr ''success''))))
         \<lparr>sent = [], log = [], files = [], handles = []\<rparr>) = Inl (TypeError NotSubscriptable)
   \<and> fst (upload_csv (BaseDuneClient ''key'' ''v1'' ''medium'') ''t'' ''a,b'' [] False
         (\<lambda>req. Inr (Response 200 ''OK'' (Inr (JObj [(''success'', JStr ''false'')]))))
         \<lparr>sent = [], log = [], files = [], handles = []\<rparr>) = Inr True
   \<and> fst (upload_csv (BaseDuneClient ''key'' ''v1'' ''medium'') ''t'' ''a,b'' [] False
         (\<lambda>req. Inr (Response 200 ''OK'' (Inr (JObj [(''success'', JInt 0)]))))
         \<lparr>sent = [], log = [], files = [], handles = []\<rparr>) = Inr False
   \<and> fst (upload_csv (BaseDuneClient ''key'' ''v1'' ''medium'') ''t'' ''a,b'' [] False
         (\<lambda>req. Inr (Response 200 ''OK'' (Inr (JObj [(''ok'', JBool True)]))))
         \<lparr>sent = [], log = [], files = [], handles = []\<rparr>)
       = Inl (DuneError (JObj [(''ok'', JBool True)]) ''UploadCsvResponse'' (KeyError ''success''))"
  using
    upload_csv_wraps_key_error_only
      [of "\<lambda>req. Inr (Response 200 ''OK'' (Inr (JArr [JBool True])))"
          "BaseDuneClient ''key'' ''v1'' ''medium''" "''t''" "[]" "''a,b''" False
          "Response 200 ''OK'' (Inr (JArr [JBool True]))" "JArr [JBool True]"
          "\<lparr>sent = [], log = [], files = [], handles = []\<rparr>"]
    upload_csv_wraps_key_error_only
      [of "\<lambda>req. Inr (Response 200 ''OK'' (Inr (JStr ''success'')))"
          "BaseDuneClient ''key'' ''v1'' ''medium''" "''t''" "[]" "''a,b''" False
          "Response 200 ''OK'' (Inr (JStr ''success''))" "JStr ''success''"
          "\<lparr>sent = [], log = [], files = [], handles = []\<rparr>"]
    upload_csv_wraps_key_error_only
      [of "\<lambda>req. Inr (Response 200 ''OK'' (Inr (JObj [(''success'', JStr ''false'')])))"
          "BaseDuneClient ''key'' ''v1'' ''medium''" "''t''" "[]" "''a,b''" False
          "Response 200 ''OK'' (Inr (JObj [(''success'', JStr ''false'')]))"
          "JObj [(''success'', JStr ''false'')]"
          "\<lparr>sent = [], log = [], files = [], handles = []\<rparr>"]
    upload_csv_wraps_key_error_only
      [of "\<lambda>req. Inr (Response 200 ''OK'' (Inr (JObj [(''success'', JInt 0)])))"
          "BaseDuneClient ''key'' ''v1'' ''medium''" "''t''" "[]" "''a,b''" False
          "Response 200 ''OK'' (Inr (JObj [(''success'', JInt 0)]))"
          "JObj [(''success'', JInt 0)]"
          "\<lparr>sent = [], log = [], files = [], handles = []\<rparr>"]
    upload_csv_wraps_key_error_only
      [of "\<lambda>req. Inr (Response 200 ''OK'' (Inr (JObj [(''ok'', JBool True)])))"
          "BaseDuneClient ''key'' ''v1'' ''medium''" "''t''" "[]" "''a,b''" False
          "Response 200 ''OK'' (Inr (JObj [(''ok'', JBool True)]))"
          "JObj [(''ok'', JBool True)]"
          "\<lparr>sent = [], log = [], files = [], handles = []\<rparr>"]
  by simp

end
